theory Spec2Isabelle
  imports Main "HOL-Library.AList"
begin

section \<open>Election widget dev server: data generator\<close>

text \<open>
  The module \<open>server.py\<close> generates a random snapshot of election results, writes it
  as \<open>data.csv\<close> and \<open>data.json\<close>, repeats that on a timer, and serves the folder over
  HTTP with one upload endpoint. The definitions below follow the functions of that file
  in their order.
\<close>

subsection \<open>Module constants\<close>

record party =
  name :: string
  color :: string
  base :: int

definition PARTIES :: "party list" where
  "PARTIES =
     [\<lparr>name = ''Alpha'', color = ''#1f77b4'', base = 120\<rparr>,
      \<lparr>name = ''Beta'', color = ''#ff7f0e'', base = 100\<rparr>,
      \<lparr>name = ''Gamma'', color = ''#2ca02c'', base = 80\<rparr>]"

definition YEARS :: "string list" where
  "YEARS = [''2020'', ''2024'']"

subsection \<open>Rows and the random source\<close>

text \<open>
  A row is a Python dict from column name to a string or an integer. Insertion order is
  kept, so a row is an association list: \<open>row[k] = v\<close> is \<open>AList.update k v\<close> (in place
  when the key exists, appended otherwise) and \<open>row.get(k)\<close> is \<open>map_of row k\<close>.
\<close>

datatype cell = S string | I int

type_synonym row = "(string \<times> cell) list"

text \<open>
  \<open>random.Random()\<close> is seeded by the operating system. Its state is modelled as an
  arbitrary infinite sequence of raw draws and a position in it. \<open>randint(lo, hi)\<close>, for
  \<open>lo \<le> hi\<close> as at both call sites, consumes one draw and returns an integer of the
  inclusive range \<open>lo..hi\<close>; every value of the range is reachable.
\<close>

record rng =
  draws :: "nat \<Rightarrow> nat"
  pos :: nat

definition randint :: "int \<Rightarrow> int \<Rightarrow> rng \<Rightarrow> int \<times> rng" where
  "randint lo hi g =
     (lo + int (draws g (pos g) mod nat (hi - lo + 1)), g\<lparr>pos := Suc (pos g)\<rparr>)"

subsection \<open>\<open>new_random_snapshot\<close>\<close>

text \<open>The inner loop \<open>for y in YEARS\<close> for one party \<open>p\<close>, threading the row and the generator.\<close>

fun year_loop :: "party \<Rightarrow> string list \<Rightarrow> row \<Rightarrow> rng \<Rightarrow> row \<times> rng" where
  "year_loop p [] row g = (row, g)"
| "year_loop p (y # ys) row g =
     (let (delta, g1) = randint (- 5) 5 g;
          seats = max 0 (base p + delta);
          (leads, g2) = randint 0 5 g1;
          row1 = AList.update (y @ ''_Seats'') (I seats) row;
          row2 = AList.update (y @ ''_Leads'') (I leads) row1
      in year_loop p ys row2 g2)"

text \<open>The outer loop \<open>for p in PARTIES\<close>, appending one row per party.\<close>

fun party_loop :: "party list \<Rightarrow> row list \<Rightarrow> rng \<Rightarrow> row list \<times> rng" where
  "party_loop [] rows g = (rows, g)"
| "party_loop (p # ps) rows g =
     (let row0 = [(''Party'', S (name p)), (''Color'', S (color p))];
          (row, g1) = year_loop p YEARS row0 g
      in party_loop ps (rows @ [row]) g1)"

definition new_random_snapshot :: "rng \<Rightarrow> row list" where
  "new_random_snapshot g = fst (party_loop PARTIES [] g)"


subsection \<open>The shape of a generated row\<close>

text \<open>
  Auxiliary notions for stating what the two loops compute: the generator advanced by
  \<open>n\<close> draws, the two kinds of value drawn at offset \<open>k\<close>, and the row those values give
  for the configured years.
\<close>

definition advance :: "nat \<Rightarrow> rng \<Rightarrow> rng" where
  "advance n g = g\<lparr>pos := pos g + n\<rparr>"

definition delta_at :: "rng \<Rightarrow> nat \<Rightarrow> int" where
  "delta_at g k = - 5 + int (draws g (pos g + k) mod 11)"

definition leads_at :: "rng \<Rightarrow> nat \<Rightarrow> int" where
  "leads_at g k = int (draws g (pos g + k) mod 6)"

definition drawn_row :: "party \<Rightarrow> rng \<Rightarrow> row" where
  "drawn_row p g =
     [(''Party'', S (name p)), (''Color'', S (color p)),
      (''2020_Seats'', I (max 0 (base p + delta_at g 0))),
      (''2020_Leads'', I (leads_at g 1)),
      (''2024_Seats'', I (max 0 (base p + delta_at g 2))),
      (''2024_Leads'', I (leads_at g 3))]"

fun drawn_rows :: "party list \<Rightarrow> rng \<Rightarrow> row list" where
  "drawn_rows [] g = []"
| "drawn_rows (p # ps) g = drawn_row p g # drawn_rows ps (advance 4 g)"

section \<open>Python values used by the server\<close>

subsection \<open>Exceptions\<close>

text \<open>
  The exceptions that the modelled code can raise, all of them subclasses of \<open>Exception\<close>:
  \<open>ValueError\<close>, \<open>OverflowError\<close> and \<open>OSError\<close> carry their message, \<open>KeyError\<close> carries
  the missing key, \<open>MemoryError\<close> has no message. \<open>str(e)\<close> is \<open>exn_str\<close> below.
\<close>

datatype exn =
  ValueError string | KeyError string | OSError string | OverflowError string | MemoryError

subsection \<open>Text\<close>

text \<open>
  A Python \<open>str\<close> is modelled as a \<open>string\<close> whose characters are the code points below
  256; \<open>bytes\<close> are a \<open>string\<close> whose characters are the bytes.
\<close>

definition CR :: char where "CR = CHR 0x0D"
definition LF :: char where "LF = CHR 0x0A"
definition DQUOTE :: char where "DQUOTE = CHR 0x22"
definition SQUOTE :: char where "SQUOTE = CHR 0x27"
definition BACKSLASH :: char where "BACKSLASH = CHR 0x5C"

definition hex_digit :: "nat \<Rightarrow> char" where
  "hex_digit n = ''0123456789abcdef'' ! (n mod 16)"

definition hex2 :: "char \<Rightarrow> string" where
  "hex2 c = [hex_digit (of_char c div 16), hex_digit (of_char c mod 16)]"

text \<open>\<open>sep.join(xs)\<close>.\<close>

fun join :: "string \<Rightarrow> string list \<Rightarrow> string" where
  "join sep [] = []"
| "join sep [x] = x"
| "join sep (x # y # ys) = x @ sep @ join sep (y # ys)"









text \<open>ASCII \<open>s.lower()\<close>, enough to compare with a lower-case ASCII name.\<close>

definition lower_char :: "char \<Rightarrow> char" where
  "lower_char c =
     (if 65 \<le> (of_char c :: nat) \<and> (of_char c :: nat) \<le> 90 then char_of ((of_char c :: nat) + 32) else c)"

definition lower :: "string \<Rightarrow> string" where
  "lower s = map lower_char s"

text \<open>
  \<open>repr(s)\<close> of a \<open>str\<close>: single quotes unless the text has a single quote and no double
  quote; the quote and the backslash are escaped, tab, newline and return are written
  \<open>\t\<close>, \<open>\n\<close>, \<open>\r\<close>, and the other non-printable code points as \<open>\xhh\<close>.
\<close>

definition printable :: "char \<Rightarrow> bool" where
  "printable c = (let n = (of_char c :: nat) in 32 \<le> n \<and> n < 127 \<or> 161 \<le> n \<and> n \<noteq> 173)"

definition repr_char :: "char \<Rightarrow> char \<Rightarrow> string" where
  "repr_char q c =
     (if c = q \<or> c = BACKSLASH then [BACKSLASH, c]
      else if c = CHR 0x09 then [BACKSLASH, CHR ''t'']
      else if c = LF then [BACKSLASH, CHR ''n'']
      else if c = CR then [BACKSLASH, CHR ''r'']
      else if printable c then [c]
      else [BACKSLASH, CHR ''x''] @ hex2 c)"

definition py_repr :: "string \<Rightarrow> string" where
  "py_repr s =
     (let q = (if SQUOTE \<in> set s \<and> DQUOTE \<notin> set s then DQUOTE else SQUOTE)
      in [q] @ concat (map (repr_char q) s) @ [q])"

fun exn_str :: "exn \<Rightarrow> string" where
  "exn_str (ValueError m) = m"
| "exn_str (KeyError k) = py_repr k"
| "exn_str (OSError m) = m"
| "exn_str (OverflowError m) = m"
| "exn_str MemoryError = []"

text \<open>\<open>html.escape(s, quote=False)\<close>.\<close>

definition html_escape :: "string \<Rightarrow> string" where
  "html_escape s =
     concat (map (\<lambda>c. if c = CHR ''&'' then ''&amp;'' else if c = CHR ''<'' then ''&lt;''
                       else if c = CHR ''>'' then ''&gt;'' else [c]) s)"

text \<open>\<open>s.encode("utf-8")\<close> for code points below 256.\<close>

definition encode_utf8 :: "string \<Rightarrow> string" where
  "encode_utf8 s =
     concat (map (\<lambda>c. if (of_char c :: nat) < 128 then [c]
                       else [char_of (192 + (of_char c :: nat) div 64),
                             char_of (128 + (of_char c :: nat) mod 64)]) s)"

subsection \<open>Integers and their decimal text\<close>

text \<open>\<open>str(n)\<close> for an integer.\<close>

definition digit_char :: "nat \<Rightarrow> char" where
  "digit_char d = char_of (48 + d)"

fun str_nat :: "nat \<Rightarrow> string" where
  "str_nat n = (if n < 10 then [digit_char n] else str_nat (n div 10) @ [digit_char (n mod 10)])"

declare str_nat.simps [simp del]

definition str_int :: "int \<Rightarrow> string" where
  "str_int i = (if i < 0 then CHR ''-'' # str_nat (nat (- i)) else str_nat (nat i))"

text \<open>
  \<open>int(s)\<close> for a \<open>str\<close>. Whitespace around the number is skipped: the ASCII blanks and,
  of the other code points below 256, \<open>0x85\<close> and \<open>0xA0\<close> (not \<open>0x1C..0x1F\<close>). One sign may
  come first. Then the digits are scanned, where single underscores may stand between
  digits; more than 4300 digits raise \<open>ValueError\<close> (the default limit of Python 3.11 and
  later); anything left after the digits raises \<open>ValueError\<close> too. The message of an
  invalid literal quotes at most 200 characters of \<open>repr(s)\<close>.
\<close>

definition int_space :: "char \<Rightarrow> bool" where
  "int_space c = ((of_char c :: nat) \<in> {9, 10, 11, 12, 13, 32, 133, 160})"

definition int_strip :: "string \<Rightarrow> string" where
  "int_strip s = rev (dropWhile int_space (rev (dropWhile int_space s)))"

definition is_digit :: "char \<Rightarrow> bool" where
  "is_digit c = (48 \<le> (of_char c :: nat) \<and> (of_char c :: nat) \<le> 57)"

definition digit_val :: "char \<Rightarrow> nat" where
  "digit_val c = of_char c - 48"

definition digits_value :: "string \<Rightarrow> nat" where
  "digits_value ds = foldl (\<lambda>acc c. 10 * acc + digit_val c) 0 ds"

text \<open>A scanned run is well formed when no underscore begins it, ends it or follows another.\<close>

fun underscores_ok :: "string \<Rightarrow> bool" where
  "underscores_ok [] = True"
| "underscores_ok [c] = (c \<noteq> CHR ''_'')"
| "underscores_ok (c # d # cs) = (\<not> (c = CHR ''_'' \<and> d = CHR ''_'') \<and> underscores_ok (d # cs))"

definition invalid_literal :: "string \<Rightarrow> exn" where
  "invalid_literal s = ValueError (''invalid literal for int() with base 10: '' @ take 200 (py_repr s))"

definition digit_limit :: "nat \<Rightarrow> exn" where
  "digit_limit n =
     ValueError (''Exceeds the limit (4300 digits) for integer string conversion: value has ''
       @ str_nat n @ '' digits; use sys.set_int_max_str_digits() to increase the limit'')"

definition py_int :: "string \<Rightarrow> exn + int" where
  "py_int s =
     (let t = int_strip s;
          neg = (t \<noteq> [] \<and> hd t = CHR ''-'');
          u = (if t \<noteq> [] \<and> (hd t = CHR ''-'' \<or> hd t = CHR ''+'') then tl t else t);
          run = takeWhile (\<lambda>c. is_digit c \<or> c = CHR ''_'') u;
          rest = dropWhile (\<lambda>c. is_digit c \<or> c = CHR ''_'') u;
          ds = filter is_digit run
      in if run = [] \<or> hd run = CHR ''_'' \<or> \<not> underscores_ok run then Inl (invalid_literal s)
         else if 4300 < length ds then Inl (digit_limit (length ds))
         else if rest \<noteq> [] then Inl (invalid_literal s)
         else Inr (if neg then - int (digits_value ds) else int (digits_value ds)))"

subsection \<open>JSON documents and \<open>json.dumps\<close>\<close>

datatype json =
  JNull | JBool bool | JInt int | JStr string | JList "json list" | JObj "(string \<times> json) list"

text \<open>
  String escaping: the quote, the backslash and the control characters are always
  escaped; with \<open>ensure_ascii\<close> so is every character outside \<open>' '..'~'\<close>.
\<close>

definition json_escape_char :: "bool \<Rightarrow> char \<Rightarrow> string" where
  "json_escape_char ensure_ascii c =
     (if c = DQUOTE then [BACKSLASH, DQUOTE]
      else if c = BACKSLASH then [BACKSLASH, BACKSLASH]
      else if c = LF then [BACKSLASH, CHR ''n'']
      else if c = CR then [BACKSLASH, CHR ''r'']
      else if c = CHR 0x09 then [BACKSLASH, CHR ''t'']
      else if c = CHR 0x08 then [BACKSLASH, CHR ''b'']
      else if c = CHR 0x0C then [BACKSLASH, CHR ''f'']
      else if (of_char c :: nat) < 32 \<or> ensure_ascii \<and> 126 < (of_char c :: nat)
        then [BACKSLASH, CHR ''u'', CHR ''0'', CHR ''0''] @ hex2 c
      else [c])"

definition json_str :: "bool \<Rightarrow> string \<Rightarrow> string" where
  "json_str ensure_ascii s = [DQUOTE] @ concat (map (json_escape_char ensure_ascii) s) @ [DQUOTE]"

text \<open>
  The line break and indentation before an item at nesting level \<open>l\<close> (nothing without
  \<open>indent\<close>), and the separator between items (\<open>", "\<close> without \<open>indent\<close>).
\<close>

definition newline_indent :: "nat option \<Rightarrow> nat \<Rightarrow> string" where
  "newline_indent ind l = (case ind of None \<Rightarrow> [] | Some k \<Rightarrow> LF # replicate (k * l) CHR '' '')"

definition item_separator :: "nat option \<Rightarrow> nat \<Rightarrow> string" where
  "item_separator ind l = (case ind of None \<Rightarrow> '', '' | Some k \<Rightarrow> '','' @ newline_indent ind l)"

fun dumps_at :: "bool \<Rightarrow> nat option \<Rightarrow> nat \<Rightarrow> json \<Rightarrow> string"
  and dumps_items :: "bool \<Rightarrow> nat option \<Rightarrow> nat \<Rightarrow> json list \<Rightarrow> string"
  and dumps_members :: "bool \<Rightarrow> nat option \<Rightarrow> nat \<Rightarrow> (string \<times> json) list \<Rightarrow> string" where
  "dumps_at e ind l JNull = ''null''"
| "dumps_at e ind l (JBool b) = (if b then ''true'' else ''false'')"
| "dumps_at e ind l (JInt i) = str_int i"
| "dumps_at e ind l (JStr s) = json_str e s"
| "dumps_at e ind l (JList xs) =
     (if xs = [] then ''[]''
      else ''['' @ newline_indent ind (Suc l) @ dumps_items e ind (Suc l) xs
           @ newline_indent ind l @ '']'')"
| "dumps_at e ind l (JObj ms) =
     (if ms = [] then ''{}''
      else ''{'' @ newline_indent ind (Suc l) @ dumps_members e ind (Suc l) ms
           @ newline_indent ind l @ ''}'')"
| "dumps_items e ind l [] = []"
| "dumps_items e ind l [x] = dumps_at e ind l x"
| "dumps_items e ind l (x # y # ys) =
     dumps_at e ind l x @ item_separator ind l @ dumps_items e ind l (y # ys)"
| "dumps_members e ind l [] = []"
| "dumps_members e ind l [(k, v)] = json_str e k @ '': '' @ dumps_at e ind l v"
| "dumps_members e ind l ((k, v) # m # ms) =
     json_str e k @ '': '' @ dumps_at e ind l v @ item_separator ind l
       @ dumps_members e ind l (m # ms)"

text \<open>\<open>json.dumps(v, ensure_ascii=e, indent=ind)\<close>.\<close>

definition json_dumps :: "bool \<Rightarrow> nat option \<Rightarrow> json \<Rightarrow> string" where
  "json_dumps e ind v = dumps_at e ind 0 v"

subsection \<open>The file system\<close>

text \<open>
  A file holds the text written through the UTF-8 text layer (\<open>open(..., encoding="utf-8")\<close>,
  \<open>write_text\<close>) or the bytes written by \<open>write_bytes\<close>. Whether the operating system
  accepts a write is the oracle \<open>deny\<close>: \<open>Some msg\<close> makes the write raise \<open>OSError(msg)\<close>
  and leave the file as it was. A write that succeeds replaces the whole file.
\<close>

datatype content = Text string | Bytes string

record fs =
  files :: "string \<rightharpoonup> content"
  deny :: "string \<Rightarrow> string option"

definition write_file :: "string \<Rightarrow> content \<Rightarrow> fs \<Rightarrow> exn + fs" where
  "write_file p c fs =
     (case deny fs p of
        Some msg \<Rightarrow> Inl (OSError msg)
      | None \<Rightarrow> Inr (fs\<lparr>files := (files fs)(p \<mapsto> c)\<rparr>))"

text \<open>
  \<open>ROOT\<close> is the folder of the script, known at run time only; its text \<open>str(ROOT)\<close> is the
  parameter \<open>root\<close> of what follows. \<open>ROOT / file\<close> is the POSIX join.
\<close>

definition joinpath :: "string \<Rightarrow> string \<Rightarrow> string" where
  "joinpath root file =
     (if root \<noteq> [] \<and> last root = CHR ''/'' then root @ file else root @ ''/'' @ file)"

definition CSV_PATH :: "string \<Rightarrow> string" where
  "CSV_PATH root = joinpath root ''data.csv''"

definition JSON_PATH :: "string \<Rightarrow> string" where
  "JSON_PATH root = joinpath root ''data.json''"

section \<open>Writing the two data files\<close>

subsection \<open>The CSV writer\<close>

text \<open>
  \<open>csv.DictWriter\<close> with its default dialect: a field is the \<open>str\<close> of the value; it is
  quoted when it holds the delimiter, the quote or a line-break character, quotes inside
  being doubled; fields are joined by commas and the record ends with \<open>\r\n\<close>. A record of
  one empty field is written as a pair of quotes.
\<close>

definition csv_headers :: "string list" where
  "csv_headers =
     [''Party'', ''Color''] @ concat (map (\<lambda>y. map (\<lambda>suf. y @ ''_'' @ suf) [''Seats'', ''Leads'']) YEARS)"

fun cell_str :: "cell \<Rightarrow> string" where
  "cell_str (S s) = s"
| "cell_str (I i) = str_int i"

definition csv_special :: "char \<Rightarrow> bool" where
  "csv_special c = (c = CHR '','' \<or> c = DQUOTE \<or> c = CR \<or> c = LF)"

definition csv_field :: "string \<Rightarrow> string" where
  "csv_field s =
     (if list_ex csv_special s
      then [DQUOTE] @ concat (map (\<lambda>c. if c = DQUOTE then [DQUOTE, DQUOTE] else [c]) s) @ [DQUOTE]
      else s)"

definition csv_line :: "string list \<Rightarrow> string" where
  "csv_line flds =
     (if flds = [[]] then [DQUOTE, DQUOTE] else join '','' (map csv_field flds)) @ [CR, LF]"

text \<open>The dict \<open>{h: r.get(h, "") for h in headers}\<close>, read in the order of the field names.\<close>

definition row_values :: "row \<Rightarrow> cell list" where
  "row_values r = map (\<lambda>h. case map_of r h of Some v \<Rightarrow> v | None \<Rightarrow> S []) csv_headers"

definition csv_text :: "row list \<Rightarrow> string" where
  "csv_text rows =
     csv_line csv_headers @ concat (map (\<lambda>r. csv_line (map cell_str (row_values r))) rows)"

subsection \<open>The JSON document\<close>

text \<open>
  \<open>int(r.get(key, 0))\<close>: the default is the integer 0, an integer cell is itself, and a
  string cell goes through \<open>int()\<close>, which may raise.
\<close>

fun cell_int :: "cell option \<Rightarrow> exn + int" where
  "cell_int None = Inr 0"
| "cell_int (Some (I i)) = Inr i"
| "cell_int (Some (S s)) = py_int s"

fun cell_json :: "cell \<Rightarrow> json" where
  "cell_json (S s) = JStr s"
| "cell_json (I i) = JInt i"

text \<open>The comprehension over \<open>YEARS\<close> for one row; the first exception ends it.\<close>

fun yearly_results :: "row \<Rightarrow> string list \<Rightarrow> exn + json list" where
  "yearly_results r [] = Inr []"
| "yearly_results r (y # ys) =
     (case cell_int (map_of r (y @ ''_Seats'')) of
        Inl e \<Rightarrow> Inl e
      | Inr seats \<Rightarrow>
          (case cell_int (map_of r (y @ ''_Leads'')) of
             Inl e \<Rightarrow> Inl e
           | Inr leads \<Rightarrow>
               (case yearly_results r ys of
                  Inl e \<Rightarrow> Inl e
                | Inr rest \<Rightarrow>
                    Inr (JObj [(''year'', JStr y), (''seats'', JInt seats), (''leads'', JInt leads)]
                         # rest))))"

text \<open>The comprehension over the rows; \<open>r["Party"]\<close> raises \<open>KeyError\<close> when the key is missing.\<close>

fun parties_json :: "row list \<Rightarrow> exn + json list" where
  "parties_json [] = Inr []"
| "parties_json (r # rs) =
     (case map_of r ''Party'' of
        None \<Rightarrow> Inl (KeyError ''Party'')
      | Some p \<Rightarrow>
          (case yearly_results r YEARS of
             Inl e \<Rightarrow> Inl e
           | Inr ys \<Rightarrow>
               (case parties_json rs of
                  Inl e \<Rightarrow> Inl e
                | Inr rest \<Rightarrow>
                    Inr (JObj [(''party'', cell_json p), (''yearly_results'', JList ys)] # rest))))"

definition json_data :: "row list \<Rightarrow> exn + json" where
  "json_data rows =
     (case parties_json rows of
        Inl e \<Rightarrow> Inl e
      | Inr ps \<Rightarrow> Inr (JObj [(''years'', JList (map JStr YEARS)), (''parties'', JList ps)]))"

subsection \<open>\<open>write_csv_and_json\<close>\<close>

text \<open>
  The function returns the exception that ended it, if any, and the file system as it
  then is: the CSV file is written first, so a failure after it leaves the new CSV file
  beside the old JSON file.
\<close>

definition write_csv_and_json :: "string \<Rightarrow> row list \<Rightarrow> fs \<Rightarrow> exn option \<times> fs" where
  "write_csv_and_json root rows fs =
     (case write_file (CSV_PATH root) (Text (csv_text rows)) fs of
        Inl e \<Rightarrow> (Some e, fs)
      | Inr fs1 \<Rightarrow>
          (case json_data rows of
             Inl e \<Rightarrow> (Some e, fs1)
           | Inr data \<Rightarrow>
               (case write_file (JSON_PATH root) (Text (json_dumps False (Some 2) data)) fs1 of
                  Inl e \<Rightarrow> (Some e, fs1)
                | Inr fs2 \<Rightarrow> (None, fs2))))"

subsection \<open>Reading the two files back\<close>

text \<open>
  What a consumer of the files does; these definitions are not code of the server. The
  CSV text is cut into records at \<open>\r\n\<close> and into fields at commas (no field of a
  generated file is quoted), the first record names the columns, and every other record
  gives one tuple per configured year. The JSON document gives one tuple per entry of
  \<open>yearly_results\<close> of each party.
\<close>

type_synonym result_tuple = "string \<times> string \<times> int \<times> int"

fun split_fields :: "string \<Rightarrow> string \<Rightarrow> string list" where
  "split_fields acc [] = [rev acc]"
| "split_fields acc (c # cs) =
     (if c = CHR '','' then rev acc # split_fields [] cs else split_fields (c # acc) cs)"

fun split_records :: "string \<Rightarrow> string \<Rightarrow> string list" where
  "split_records acc [] = (if acc = [] then [] else [rev acc])"
| "split_records acc [c] = [rev (c # acc)]"
| "split_records acc (c # d # cs) =
     (if c = CR \<and> d = LF then rev acc # split_records [] cs
      else split_records (c # acc) (d # cs))"

definition read_csv_records :: "string \<Rightarrow> string list list" where
  "read_csv_records text = map (split_fields []) (split_records [] text)"

definition int_field :: "string option \<Rightarrow> int option" where
  "int_field f =
     (case f of
        None \<Rightarrow> None
      | Some s \<Rightarrow> (case py_int s of Inl e \<Rightarrow> None | Inr i \<Rightarrow> Some i))"

definition record_tuple :: "string list \<Rightarrow> string list \<Rightarrow> string \<Rightarrow> result_tuple option" where
  "record_tuple header flds y =
     (let d = map_of (zip header flds)
      in case (d ''Party'', int_field (d (y @ ''_Seats'')), int_field (d (y @ ''_Leads''))) of
           (Some p, Some seats, Some leads) \<Rightarrow> Some (p, y, seats, leads)
         | _ \<Rightarrow> None)"

definition read_csv_tuples :: "string \<Rightarrow> result_tuple list option" where
  "read_csv_tuples text =
     (case read_csv_records text of
        [] \<Rightarrow> None
      | header # recs \<Rightarrow>
          map_option concat
            (those (map (\<lambda>flds. those (map (record_tuple header flds) YEARS)) recs)))"

fun year_tuple :: "string \<Rightarrow> json \<Rightarrow> result_tuple option" where
  "year_tuple p (JObj m) =
     (case (map_of m ''year'', map_of m ''seats'', map_of m ''leads'') of
        (Some (JStr y), Some (JInt seats), Some (JInt leads)) \<Rightarrow> Some (p, y, seats, leads)
      | _ \<Rightarrow> None)"
| "year_tuple p _ = None"

fun party_tuples :: "json \<Rightarrow> result_tuple list option" where
  "party_tuples (JObj m) =
     (case (map_of m ''party'', map_of m ''yearly_results'') of
        (Some (JStr p), Some (JList ys)) \<Rightarrow> those (map (year_tuple p) ys)
      | _ \<Rightarrow> None)"
| "party_tuples _ = None"

fun read_json_tuples :: "json \<Rightarrow> result_tuple list option" where
  "read_json_tuples (JObj m) =
     (case map_of m ''parties'' of
        Some (JList ps) \<Rightarrow> map_option concat (those (map party_tuples ps))
      | _ \<Rightarrow> None)"
| "read_json_tuples _ = None"

section \<open>The HTTP request handler\<close>

subsection \<open>The handler object and the library methods it inherits\<close>

text \<open>
  \<open>NoCacheRequestHandler\<close> extends the library class \<open>SimpleHTTPRequestHandler\<close>. The
  handler object holds what the library's \<open>parse_request\<close> stores in it (the method, the
  request target, the request version, the request headers in their order), the bytes of
  the connection that follow the headers, the header buffer and what has been written to
  the client. A command that is \<open>None\<close> or empty is the empty text. The last four fields
  stand for library methods, attributes and run-time conditions whose value the program
  does not choose; \<open>read_error n\<close> is the exception, if any, that reading \<open>n\<close> bytes from the
  connection meets (no memory for the buffer, a broken connection).

  What goes to the client is kept as a list of items, one per line of the response head
  and one per body write. The status line omits the protocol version.
\<close>

datatype wire = StatusLine nat string | HeaderLine string string | BlankLine | Payload string

record handler =
  command :: string
  path :: string
  request_version :: string
  headers :: "(string \<times> string) list"
  rfile :: string
  headers_buffer :: "wire list"
  wfile :: "wire list"
  version_string :: string
  date_time_string :: string
  error_message_format :: "nat \<Rightarrow> string \<Rightarrow> string \<Rightarrow> string"
  read_error :: "nat \<Rightarrow> exn option"

text \<open>
  The library's table \<open>responses\<close>: the short and the long message of every status code of
  \<open>http.HTTPStatus\<close> (Python 3.12).
\<close>

definition responses_table :: "(nat \<times> string \<times> string) list" where
  "responses_table =
     [
      (100, (''Continue'',
            ''Request received, please continue'')),
      (101, (''Switching Protocols'',
            ''Switching to new protocol; obey Upgrade header'')),
      (102, (''Processing'',
            [])),
      (103, (''Early Hints'',
            [])),
      (200, (''OK'',
            ''Request fulfilled, document follows'')),
      (201, (''Created'',
            ''Document created, URL follows'')),
      (202, (''Accepted'',
            ''Request accepted, processing continues off-line'')),
      (203, (''Non-Authoritative Information'',
            ''Request fulfilled from cache'')),
      (204, (''No Content'',
            ''Request fulfilled, nothing follows'')),
      (205, (''Reset Content'',
            ''Clear input form for further input'')),
      (206, (''Partial Content'',
            ''Partial content follows'')),
      (207, (''Multi-Status'',
            [])),
      (208, (''Already Reported'',
            [])),
      (226, (''IM Used'',
            [])),
      (300, (''Multiple Choices'',
            ''Object has several resources -- see URI list'')),
      (301, (''Moved Permanently'',
            ''Object moved permanently -- see URI list'')),
      (302, (''Found'',
            ''Object moved temporarily -- see URI list'')),
      (303, (''See Other'',
            ''Object moved -- see Method and URL list'')),
      (304, (''Not Modified'',
            ''Document has not changed since given time'')),
      (305, (''Use Proxy'',
            ''You must use proxy specified in Location to access this resource'')),
      (307, (''Temporary Redirect'',
            ''Object moved temporarily -- see URI list'')),
      (308, (''Permanent Redirect'',
            ''Object moved permanently -- see URI list'')),
      (400, (''Bad Request'',
            ''Bad request syntax or unsupported method'')),
      (401, (''Unauthorized'',
            ''No permission -- see authorization schemes'')),
      (402, (''Payment Required'',
            ''No payment -- see charging schemes'')),
      (403, (''Forbidden'',
            ''Request forbidden -- authorization will not help'')),
      (404, (''Not Found'',
            ''Nothing matches the given URI'')),
      (405, (''Method Not Allowed'',
            ''Specified method is invalid for this resource'')),
      (406, (''Not Acceptable'',
            ''URI not available in preferred format'')),
      (407, (''Proxy Authentication Required'',
            ''You must authenticate with this proxy before proceeding'')),
      (408, (''Request Timeout'',
            ''Request timed out; try again later'')),
      (409, (''Conflict'',
            ''Request conflict'')),
      (410, (''Gone'',
            ''URI no longer exists and has been permanently removed'')),
      (411, (''Length Required'',
            ''Client must specify Content-Length'')),
      (412, (''Precondition Failed'',
            ''Precondition in headers is false'')),
      (413, (''Request Entity Too Large'',
            ''Entity is too large'')),
      (414, (''Request-URI Too Long'',
            ''URI is too long'')),
      (415, (''Unsupported Media Type'',
            ''Entity body in unsupported format'')),
      (416, (''Requested Range Not Satisfiable'',
            ''Cannot satisfy request range'')),
      (417, (''Expectation Failed'',
            ''Expect condition could not be satisfied'')),
      (418, (''I'' @ [SQUOTE] @ ''m a Teapot'',
            ''Server refuses to brew coffee because it is a teapot.'')),
      (421, (''Misdirected Request'',
            ''Server is not able to produce a response'')),
      (422, (''Unprocessable Entity'',
            [])),
      (423, (''Locked'',
            [])),
      (424, (''Failed Dependency'',
            [])),
      (425, (''Too Early'',
            [])),
      (426, (''Upgrade Required'',
            [])),
      (428, (''Precondition Required'',
            ''The origin server requires the request to be conditional'')),
      (429, (''Too Many Requests'',
            ''The user has sent too many requests in a given amount of time ('' @ [DQUOTE] @ ''rate limiting'' @ [DQUOTE] @ '')'')),
      (431, (''Request Header Fields Too Large'',
            ''The server is unwilling to process the request because its header fields are too large'')),
      (451, (''Unavailable For Legal Reasons'',
            ''The server is denying access to the resource as a consequence of a legal demand'')),
      (500, (''Internal Server Error'',
            ''Server got itself in trouble'')),
      (501, (''Not Implemented'',
            ''Server does not support this operation'')),
      (502, (''Bad Gateway'',
            ''Invalid responses from another server/proxy'')),
      (503, (''Service Unavailable'',
            ''The server cannot process the request due to a high load'')),
      (504, (''Gateway Timeout'',
            ''The gateway server did not receive a timely response'')),
      (505, (''HTTP Version Not Supported'',
            ''Cannot fulfill request'')),
      (506, (''Variant Also Negotiates'',
            [])),
      (507, (''Insufficient Storage'',
            [])),
      (508, (''Loop Detected'',
            [])),
      (510, (''Not Extended'',
            [])),
      (511, (''Network Authentication Required'',
            ''The client needs to authenticate to gain network access''))
     ]"

definition responses :: "nat \<Rightarrow> (string \<times> string) option" where
  "responses code = map_of responses_table code"

text \<open>
  The library's \<open>send_response_only\<close>, \<open>send_header\<close>, \<open>send_response\<close>, \<open>flush_headers\<close>
  and \<open>end_headers\<close>. The first two and the last do nothing while the request version is
  \<open>HTTP/0.9\<close>. Logging and the \<open>close_connection\<close> flag are left out.
\<close>

definition send_response_only :: "nat \<Rightarrow> string option \<Rightarrow> handler \<Rightarrow> handler" where
  "send_response_only code message h =
     (if request_version h \<noteq> ''HTTP/0.9'' then
        (let m = (case message of
                    Some m \<Rightarrow> m
                  | None \<Rightarrow> (case responses code of Some (short, long) \<Rightarrow> short | None \<Rightarrow> []))
         in h\<lparr>headers_buffer := headers_buffer h @ [StatusLine code m]\<rparr>)
      else h)"

definition send_header :: "string \<Rightarrow> string \<Rightarrow> handler \<Rightarrow> handler" where
  "send_header keyword v h =
     (if request_version h \<noteq> ''HTTP/0.9''
      then h\<lparr>headers_buffer := headers_buffer h @ [HeaderLine keyword v]\<rparr>
      else h)"

definition send_response :: "nat \<Rightarrow> string option \<Rightarrow> handler \<Rightarrow> handler" where
  "send_response code message h =
     (let h1 = send_response_only code message h;
          h2 = send_header ''Server'' (version_string h1) h1
      in send_header ''Date'' (date_time_string h2) h2)"




text \<open>\<open>self.headers.get(key, default)\<close>: the first header whose name matches without regard to case.\<close>

definition headers_get :: "(string \<times> string) list \<Rightarrow> string \<Rightarrow> string \<Rightarrow> string" where
  "headers_get hs key dflt =
     (case find (\<lambda>kv. lower (fst kv) = lower key) hs of
        Some kv \<Rightarrow> snd kv
      | None \<Rightarrow> dflt)"


subsection \<open>\<open>NoCacheRequestHandler.end_headers\<close>\<close>



subsection \<open>\<open>NoCacheRequestHandler.do_POST\<close>\<close>





subsection \<open>The library's request loop\<close>


fun send_headers :: "(string \<times> string) list \<Rightarrow> handler \<Rightarrow> handler" where
  "send_headers [] h = h"
| "send_headers (kv # kvs) h = send_headers kvs (send_header (fst kv) (snd kv) h)"


text \<open>
  What arrives on a connection for one request: the first line as far as its line break,
  what the library's header parser makes of the lines that follow (the headers, or one of
  its two exceptions with its message), and the bytes after the header block.
\<close>

datatype header_block =
  Headers "(string \<times> string) list" | LineTooLong string | TooManyHeaders string

record connection =
  first_line :: string
  header_block :: header_block
  content :: string





section \<open>The background updater\<close>

text \<open>
  \<open>run_updater\<close> runs on its own thread. What the outside world contributes to a cycle is a
  \<open>tick\<close>: whether \<open>stop_evt.wait(interval)\<close> returned true, the fresh random generator, the
  writes the operating system refuses at that moment and the clock's text. The loop is
  defined by recursion on the ticks to come; when they run out it is still waiting.
\<close>

record tick =
  stop_set :: bool
  seed :: rng
  deny_now :: "string \<Rightarrow> string option"
  now :: string

record updater =
  disk :: fs
  stdout :: "string list"
  stderr :: "string list"

datatype exit = Stopped | Raised exn | Waiting

definition stamp :: "string \<Rightarrow> string \<Rightarrow> string" where
  "stamp clock msg = ''['' @ clock @ ''] '' @ msg"

fun updater_loop :: "string \<Rightarrow> tick list \<Rightarrow> updater \<Rightarrow> exit \<times> updater" where
  "updater_loop root [] u = (Waiting, u)"
| "updater_loop root (t # ts) u =
     (if stop_set t then (Stopped, u)
      else
        (let rows = new_random_snapshot (seed t);
             (e, d) = write_csv_and_json root rows ((disk u)\<lparr>deny := deny_now t\<rparr>)
         in updater_loop root ts
              (case e of
                 None \<Rightarrow> u\<lparr>disk := d, stdout := stdout u @ [stamp (now t) ''Data updated'']\<rparr>
               | Some ex \<Rightarrow>
                   u\<lparr>disk := d,
                     stderr := stderr u @ [''WARNING: Failed to update data: '' @ exn_str ex]\<rparr>)))"

text \<open>
  The initial write stands before the loop and outside its \<open>try\<close>: an exception there
  leaves \<open>run_updater\<close>, and the thread ends. The interval only sets how long a wait lasts.
\<close>

definition run_updater :: "string \<Rightarrow> int \<Rightarrow> tick \<Rightarrow> tick list \<Rightarrow> updater \<Rightarrow> exit \<times> updater" where
  "run_updater root interval t0 ts u =
     (let rows = new_random_snapshot (seed t0);
          (e, d) = write_csv_and_json root rows ((disk u)\<lparr>deny := deny_now t0\<rparr>)
      in case e of
           Some ex \<Rightarrow> (Raised ex, u\<lparr>disk := d\<rparr>)
         | None \<Rightarrow>
             updater_loop root ts
               (u\<lparr>disk := d, stdout := stdout u @ [stamp (now t0) ''Data initialized'']\<rparr>))"

text \<open>The number of generation cycles of the loop that the ticks allow.\<close>

fun cycles_run :: "tick list \<Rightarrow> nat" where
  "cycles_run [] = 0"
| "cycles_run (t # ts) = (if stop_set t then 0 else Suc (cycles_run ts))"

section \<open>Notions for stating the properties of the handler\<close>

text \<open>
  The three headers that \<open>end_headers\<close> adds, what it means that a handler has answered
  a request (the items written since make one response head that ends with those headers
  and a blank line, followed by body writes only), the items of a JSON reply of the upload
  endpoint, and a handler that is still collecting the head of its answer.
\<close>

definition no_cache_headers :: "wire list" where
  "no_cache_headers =
     [HeaderLine ''Cache-Control'' ''no-store, no-cache, must-revalidate, max-age=0'',
      HeaderLine ''Pragma'' ''no-cache'',
      HeaderLine ''Access-Control-Allow-Origin'' ''*'']"



definition json_reply :: "nat \<Rightarrow> string \<Rightarrow> json \<Rightarrow> handler \<Rightarrow> wire list" where
  "json_reply code phrase v h =
     (let body = encode_utf8 (json_dumps True None v)
      in [StatusLine code phrase,
          HeaderLine ''Server'' (version_string h),
          HeaderLine ''Date'' (date_time_string h),
          HeaderLine ''Content-Type'' ''application/json; charset=utf-8'',
          HeaderLine ''Content-Length'' (str_nat (length body))]
         @ no_cache_headers @ [BlankLine, Payload body])"




text \<open>Sample inputs for instances of the theorems.\<close>

definition example_handler :: handler where
  "example_handler =
     \<lparr>command = ''POST'', path = ''/save-embed'', request_version = ''HTTP/1.1'',
      headers = [(''Host'', ''127.0.0.1:8080''), (''Content-Length'', ''5'')],
      rfile = ''hello'', headers_buffer = [], wfile = [],
      version_string = ''SimpleHTTP/0.6 Python/3.12.0'',
      date_time_string = ''Thu, 01 Jan 2026 00:00:00 GMT'',
      error_message_format = (\<lambda>code m x. str_nat code @ '' '' @ m @ '': '' @ x),
      read_error = (\<lambda>n. None)\<rparr>"




text \<open>
  The items of an error page sent by \<open>send_error\<close> for a request that is not a \<open>HEAD\<close>
  request: status line, the library's headers, the three headers of \<open>end_headers\<close>, the
  blank line and the page, if it is not empty.
\<close>

definition error_reply :: "nat \<Rightarrow> string \<Rightarrow> string \<Rightarrow> handler \<Rightarrow> wire list" where
  "error_reply code m x h =
     (let body = encode_utf8 (error_message_format h code (html_escape m) (html_escape x))
      in [StatusLine code m,
          HeaderLine ''Server'' (version_string h),
          HeaderLine ''Date'' (date_time_string h),
          HeaderLine ''Connection'' ''close'',
          HeaderLine ''Content-Type'' ''text/html;charset=utf-8'',
          HeaderLine ''Content-Length'' (str_nat (length body))]
         @ no_cache_headers @ [BlankLine] @ (if body = [] then [] else [Payload body]))"



definition request_post_http09 :: connection where
  "request_post_http09 =
     \<lparr>first_line = ''POST /unknown HTTP/0.9'' @ [CR, LF],
      header_block = Headers [(''Host'', ''127.0.0.1:8080''), (''Content-Length'', ''5'')],
      content = ''hello''\<rparr>"

definition request_huge_length :: connection where
  "request_huge_length =
     \<lparr>first_line = ''POST /save-embed HTTP/1.1'' @ [CR, LF],
      header_block = Headers [(''Host'', ''127.0.0.1:8080''),
                              (''Content-Length'', ''9223372036854775808'')],
      content = ''hello''\<rparr>"

definition readonly_fs :: fs where
  "readonly_fs =
     \<lparr>files = Map.empty,
      deny = (\<lambda>p. Some (''[Errno 13] Permission denied: '' @ py_repr p))\<rparr>"

text \<open>The text of the \<open>Content-Length\<close> header as \<open>do_POST\<close> reads it: \<open>"0"\<close> when there is none.\<close>

definition content_length :: "handler \<Rightarrow> string" where
  "content_length h = headers_get (headers h) ''Content-Length'' ''0''"

text \<open>
  Sample uploads that differ in their \<open>Content-Length\<close> header: shorter than the body,
  absent, not a number, and \<open>2^63\<close>.
\<close>

definition upload_three :: handler where
  "upload_three = example_handler\<lparr>headers := [(''Content-Length'', ''3'')]\<rparr>"

definition upload_no_length :: handler where
  "upload_no_length = example_handler\<lparr>headers := [(''Host'', ''127.0.0.1:8080'')]\<rparr>"

definition upload_bad_length :: handler where
  "upload_bad_length = example_handler\<lparr>headers := [(''Content-Length'', ''abc'')]\<rparr>"

definition upload_huge_length :: handler where
  "upload_huge_length =
     example_handler\<lparr>headers := [(''Content-Length'', ''9223372036854775808'')]\<rparr>"

section \<open>Properties of the data generator\<close>

subsection \<open>The rows of a snapshot\<close>

lemma delta_at_range: "- 5 \<le> delta_at g k \<and> delta_at g k \<le> 5"
  unfolding delta_at_def by simp

lemma leads_at_range: "0 \<le> leads_at g k \<and> leads_at g k \<le> 5"
  unfolding leads_at_def by simp

lemma advance_advance: "advance m (advance n g) = advance (n + m) g"
  by (simp add: advance_def add.assoc)

lemma advance_0: "advance 0 g = g"
  by (simp add: advance_def)

lemma year_loop_YEARS:
  "year_loop p YEARS [(''Party'', S (name p)), (''Color'', S (color p))] g
     = (drawn_row p g, advance 4 g)"
proof -
  have three: "Suc (Suc (Suc (pos g))) = pos g + 3" by simp
  show ?thesis
    by (simp add: YEARS_def randint_def Let_def drawn_row_def delta_at_def leads_at_def
        advance_def three)
qed

lemma party_loop_rows:
  "party_loop ps rows g = (rows @ drawn_rows ps g, advance (4 * length ps) g)"
  by (induction ps arbitrary: rows g)
     (simp_all add: year_loop_YEARS advance_advance advance_0)

lemma drawn_rows_length: "length (drawn_rows ps g) = length ps"
  by (induction ps arbitrary: g) simp_all

lemma drawn_rows_nth:
  "i < length ps \<Longrightarrow> drawn_rows ps g ! i = drawn_row (ps ! i) (advance (4 * i) g)"
proof (induction ps arbitrary: i g)
  case Nil
  then show ?case by simp
next
  case (Cons p ps)
  show ?case
  proof (cases i)
    case 0
    then show ?thesis by (simp add: advance_0)
  next
    case (Suc j)
    with Cons.prems have "j < length ps" by simp
    from Cons.IH[OF this, of "advance 4 g"] Suc show ?thesis
      by (simp add: advance_advance)
  qed
qed

lemma snapshot_rows: "new_random_snapshot g = drawn_rows PARTIES g"
  by (simp add: new_random_snapshot_def party_loop_rows)

lemma snapshot_length: "length (new_random_snapshot g) = length PARTIES"
  by (simp add: snapshot_rows drawn_rows_length)

lemma snapshot_nth:
  "i < length PARTIES \<Longrightarrow>
     new_random_snapshot g ! i = drawn_row (PARTIES ! i) (advance (4 * i) g)"
  by (simp add: snapshot_rows drawn_rows_nth)

text \<open>
  Claim C2. Whatever the random source yields, a snapshot has one row per party, and in the
  row of party \<open>i\<close>, for each configured year, the seats cell is the integer
  \<open>max(0, base + delta)\<close> for some \<open>delta\<close> of \<open>-5..5\<close>, hence non-negative, and the
  leads cell is an integer of \<open>0..5\<close>.
\<close>

theorem snapshot_seats_leads_bounds:
  assumes "i < length PARTIES" and "y \<in> set YEARS"
  shows "length (new_random_snapshot g) = length PARTIES \<and>
    (\<exists>delta leads. - 5 \<le> delta \<and> delta \<le> 5 \<and> 0 \<le> leads \<and> leads \<le> 5
       \<and> map_of (new_random_snapshot g ! i) (y @ ''_Seats'')
            = Some (I (max 0 (base (PARTIES ! i) + delta)))
       \<and> 0 \<le> max 0 (base (PARTIES ! i) + delta)
       \<and> map_of (new_random_snapshot g ! i) (y @ ''_Leads'') = Some (I leads))"
proof -
  let ?g = "advance (4 * i) g"
  from assms(2) have y: "y = ''2020'' \<or> y = ''2024''" by (auto simp: YEARS_def)
  then have "\<exists>delta leads. - 5 \<le> delta \<and> delta \<le> 5 \<and> 0 \<le> leads \<and> leads \<le> 5
       \<and> map_of (new_random_snapshot g ! i) (y @ ''_Seats'')
            = Some (I (max 0 (base (PARTIES ! i) + delta)))
       \<and> 0 \<le> max 0 (base (PARTIES ! i) + delta)
       \<and> map_of (new_random_snapshot g ! i) (y @ ''_Leads'') = Some (I leads)"
  proof
    assume "y = ''2020''"
    then show ?thesis
      using delta_at_range[of ?g 0] leads_at_range[of ?g 1]
      by (intro exI[of _ "delta_at ?g 0"] exI[of _ "leads_at ?g 1"])
         (simp add: snapshot_nth[OF assms(1)] drawn_row_def)
  next
    assume "y = ''2024''"
    then show ?thesis
      using delta_at_range[of ?g 2] leads_at_range[of ?g 3]
      by (intro exI[of _ "delta_at ?g 2"] exI[of _ "leads_at ?g 3"])
         (simp add: snapshot_nth[OF assms(1)] drawn_row_def)
  qed
  then show ?thesis by (simp add: snapshot_length)
qed

theorem snapshot_seats_leads_bounds_witness:
  "(2::nat) < length PARTIES \<and> ''2024'' \<in> set YEARS \<and>
   length (new_random_snapshot \<lparr>draws = (\<lambda>k. 7 * k), pos = 0\<rparr>) = length PARTIES \<and>
   (\<exists>delta leads. - 5 \<le> delta \<and> delta \<le> 5 \<and> 0 \<le> leads \<and> leads \<le> 5
       \<and> map_of (new_random_snapshot \<lparr>draws = (\<lambda>k. 7 * k), pos = 0\<rparr> ! 2) (''2024'' @ ''_Seats'')
            = Some (I (max 0 (base (PARTIES ! 2) + delta)))
       \<and> 0 \<le> max 0 (base (PARTIES ! 2) + delta)
       \<and> map_of (new_random_snapshot \<lparr>draws = (\<lambda>k. 7 * k), pos = 0\<rparr> ! 2) (''2024'' @ ''_Leads'')
            = Some (I leads))"
proof -
  have h1: "(2::nat) < length PARTIES" by (simp add: PARTIES_def)
  have h2: "''2024'' \<in> set YEARS" by (simp add: YEARS_def)
  from snapshot_seats_leads_bounds[OF h1 h2, of "\<lparr>draws = (\<lambda>k. 7 * k), pos = 0\<rparr>"] h1 h2
  show ?thesis by simp
qed

section \<open>Properties of the Python values\<close>

subsection \<open>\<open>int(str(n))\<close> is \<open>n\<close>\<close>

lemma digit_char_is_digit: "d < 10 \<Longrightarrow> is_digit (digit_char d)"
  by (simp add: is_digit_def digit_char_def)

lemma digit_val_digit_char: "d < 10 \<Longrightarrow> digit_val (digit_char d) = d"
  by (simp add: digit_val_def digit_char_def)

lemma digits_value_snoc: "digits_value (ds @ [c]) = 10 * digits_value ds + digit_val c"
  by (simp add: digits_value_def)

lemma str_nat_nonempty: "str_nat n \<noteq> []"
  by (subst str_nat.simps) simp

lemma str_nat_digits: "list_all is_digit (str_nat n)"
proof (induction n rule: str_nat.induct)
  case (1 n)
  show ?case
  proof (cases "n < 10")
    case True
    then show ?thesis by (subst str_nat.simps) (simp add: digit_char_is_digit)
  next
    case False
    with 1 show ?thesis by (subst str_nat.simps) (simp add: digit_char_is_digit)
  qed
qed

lemma digits_value_str_nat: "digits_value (str_nat n) = n"
proof (induction n rule: str_nat.induct)
  case (1 n)
  show ?case
  proof (cases "n < 10")
    case True
    then show ?thesis
      by (subst str_nat.simps) (simp add: digits_value_def digit_val_digit_char)
  next
    case False
    with 1 show ?thesis
      by (subst str_nat.simps) (simp add: digits_value_snoc digit_val_digit_char)
  qed
qed

lemma length_str_nat: "n < 10 ^ k \<Longrightarrow> 0 < k \<Longrightarrow> length (str_nat n) \<le> k"
proof (induction n arbitrary: k rule: str_nat.induct)
  case (1 n)
  show ?case
  proof (cases "n < 10")
    case True
    with 1(3) show ?thesis by (subst str_nat.simps) simp
  next
    case False
    obtain j where k: "k = Suc j" using 1(3) by (cases k) auto
    from False 1(2) k have j: "0 < j" by (cases j) auto
    from 1(2) k have "n div 10 < 10 ^ j" by (simp add: less_mult_imp_div_less mult.commute)
    from 1(1)[OF False this j] False k show ?thesis by (subst str_nat.simps) simp
  qed
qed

lemma is_digit_not_space: "is_digit c \<Longrightarrow> \<not> int_space c"
  by (auto simp add: is_digit_def int_space_def)

lemma is_digit_not_sign: "is_digit c \<Longrightarrow> c \<noteq> CHR ''-'' \<and> c \<noteq> CHR ''+'' \<and> c \<noteq> CHR ''_''"
  by (auto simp add: is_digit_def)

lemma underscores_ok_digits: "list_all is_digit ds \<Longrightarrow> underscores_ok ds"
  by (induction ds rule: underscores_ok.induct) (auto dest: is_digit_not_sign)

lemma int_strip_digits:
  assumes "list_all is_digit ds"
  shows "int_strip ds = ds"
proof (cases "ds = []")
  case True
  then show ?thesis by (simp add: int_strip_def)
next
  case False
  from False assms have "is_digit (hd ds)" by (cases ds) auto
  then have a: "dropWhile int_space ds = ds"
    by (simp add: dropWhile_eq_self_iff is_digit_not_space)
  from False assms have "is_digit (last ds)" by (simp add: list_all_iff)
  then have "dropWhile int_space (rev ds) = rev ds"
    using False by (simp add: dropWhile_eq_self_iff is_digit_not_space hd_rev)
  with a show ?thesis by (simp add: int_strip_def)
qed

lemma py_int_digits:
  assumes d: "list_all is_digit ds" and ne: "ds \<noteq> []" and len: "length ds \<le> 4300"
  shows "py_int ds = Inr (int (digits_value ds))"
proof -
  from d ne have h: "is_digit (hd ds)" by (cases ds) auto
  have tw: "takeWhile (\<lambda>c. is_digit c \<or> c = CHR ''_'') ds = ds"
    using d by (simp add: takeWhile_eq_all_conv list_all_iff)
  have dw: "dropWhile (\<lambda>c. is_digit c \<or> c = CHR ''_'') ds = []"
    using d by (simp add: list_all_iff)
  have fl: "filter is_digit ds = ds" using d by (simp add: list_all_iff)
  show ?thesis
    unfolding py_int_def int_strip_digits[OF d] Let_def
    using ne len is_digit_not_sign[OF h] underscores_ok_digits[OF d]
    by (simp add: tw dw fl)
qed

lemma py_int_str_nat:
  assumes "length (str_nat n) \<le> 4300"
  shows "py_int (str_nat n) = Inr (int n)"
  using py_int_digits[OF str_nat_digits str_nat_nonempty assms]
  by (simp add: digits_value_str_nat)

lemma py_int_str_nat_small:
  assumes "n < 2 ^ 63"
  shows "py_int (str_nat n) = Inr (int n)"
proof -
  have "(2::nat) ^ 63 < 10 ^ 19" by simp
  with assms have "n < 10 ^ 19" by simp
  from length_str_nat[OF this] have "length (str_nat n) \<le> 19" by simp
  then show ?thesis by (intro py_int_str_nat) simp
qed

lemma py_int_0: "py_int ''0'' = Inr 0"
  using py_int_digits[of "''0''"] by (simp add: is_digit_def digits_value_def digit_val_def)

section \<open>Properties of the request handler\<close>

subsection \<open>What the library methods keep\<close>

lemma request_version_send_header [simp]:
  "request_version (send_header k v h) = request_version h"
  by (simp add: send_header_def)

lemma request_version_send_headers [simp]:
  "request_version (send_headers kvs h) = request_version h"
  by (induction kvs arbitrary: h) simp_all

lemma request_version_send_response [simp]:
  "request_version (send_response code m h) = request_version h"
  by (simp add: send_response_def send_response_only_def Let_def)
















subsection \<open>The request loop\<close>
















subsection \<open>The no-cache headers\<close>




end
